theory Spec2Isabelle
  imports
    Main
    "HOL-Library.Sublist"
    "HOL-Library.Char_ord"
    "HOL-Library.List_Lexorder"
begin

section \<open>Python values and exceptions\<close>

text \<open>
  The file under verification is \<^verbatim>\<open>custom_components/xiaomi_gateway3/core/gateway.py\<close>:
  the class \<^verbatim>\<open>MultiGateway\<close>. Its methods \<^verbatim>\<open>send\<close>, \<^verbatim>\<open>prepare_gateway\<close>,
  \<^verbatim>\<open>telnet_command\<close>, \<^verbatim>\<open>run_forever\<close>, \<^verbatim>\<open>start\<close> and \<^verbatim>\<open>stop\<close> are modelled below, in
  this order. What other modules do (the session, the adapters, \<^verbatim>\<open>asyncio\<close>) enters as the
  outcome of each call.

  Command payloads are JSON-like Python values. A top-level payload (\<^verbatim>\<open>data: dict\<close>) is a
  map from keys to values; a dict nested inside a value is an association list.
\<close>

datatype pyval =
    VNone
  | VBool bool
  | VInt int
  | VStr string
  | VList "pyval list"
  | VDict "(string \<times> pyval) list"

type_synonym payload = "string \<rightharpoonup> pyval"

text \<open>
  The exceptions the code can meet: a failed dict lookup, an operation on a value of the
  wrong type, and any other \<^verbatim>\<open>Exception\<close> raised by a collaborator (session, adapter).
\<close>

datatype error = KeyError string | TypeError | Exception string

text \<open>\<^verbatim>\<open>data[k]\<close>: raises \<^verbatim>\<open>KeyError\<close> when the key is missing.\<close>

definition getitem :: "payload \<Rightarrow> string \<Rightarrow> error + pyval" where
  "getitem data k = (case data k of None \<Rightarrow> Inl (KeyError k) | Some v \<Rightarrow> Inr v)"

text \<open>
  \<^verbatim>\<open>for i in v\<close>: a list yields its items, a dict its keys, a string its characters;
  \<^verbatim>\<open>None\<close>, a bool and an int are not iterable.
\<close>

fun py_iter :: "pyval \<Rightarrow> error + pyval list" where
  "py_iter (VList xs) = Inr xs"
| "py_iter (VDict kvs) = Inr (map (\<lambda>kv. VStr (fst kv)) kvs)"
| "py_iter (VStr s) = Inr (map (\<lambda>c. VStr [c]) s)"
| "py_iter _ = Inl TypeError"

text \<open>
  \<^verbatim>\<open>k in i\<close> for a string \<^verbatim>\<open>k\<close>: key membership in a dict, element membership in a
  list, substring test in a string; \<^verbatim>\<open>TypeError\<close> on \<^verbatim>\<open>None\<close>, a bool or an int.
\<close>

fun py_in :: "string \<Rightarrow> pyval \<Rightarrow> error + bool" where
  "py_in k (VDict kvs) = Inr (k \<in> fst ` set kvs)"
| "py_in k (VList xs) = Inr (VStr k \<in> set xs)"
| "py_in k (VStr s) = Inr (sublist k s)"
| "py_in k _ = Inl TypeError"

text \<open>The list comprehension \<^verbatim>\<open>[i for i in xs if k in i]\<close>, items tested in order.\<close>

fun comprehension :: "string \<Rightarrow> pyval list \<Rightarrow> error + pyval list" where
  "comprehension k [] = Inr []"
| "comprehension k (i # xs) =
     (case py_in k i of
        Inl e \<Rightarrow> Inl e
      | Inr b \<Rightarrow>
          (case comprehension k xs of
             Inl e \<Rightarrow> Inl e
           | Inr ys \<Rightarrow> Inr (if b then i # ys else ys)))"

text \<open>\<^verbatim>\<open>[i for i in data["params"] if k in i]\<close>.\<close>

definition params_with :: "string \<Rightarrow> payload \<Rightarrow> error + pyval" where
  "params_with k data =
     (case getitem data ''params'' of
        Inl e \<Rightarrow> Inl e
      | Inr p \<Rightarrow>
          (case py_iter p of
             Inl e \<Rightarrow> Inl e
           | Inr xs \<Rightarrow>
               (case comprehension k xs of
                  Inl e \<Rightarrow> Inl e
                | Inr ys \<Rightarrow> Inr (VList ys))))"

section \<open>The command router: \<^verbatim>\<open>send\<close>\<close>

text \<open>
  The device types of \<^verbatim>\<open>const.py\<close> that \<^verbatim>\<open>send\<close> compares \<^verbatim>\<open>device.type\<close> with;
  \<open>OTHER\<close> stands for every type that is none of the five.
\<close>

datatype device_type = GATEWAY | ZIGBEE | MESH | GROUP | MATTER | OTHER

record xdevice =
  did :: string
  dev_type :: device_type

text \<open>An adapter call made by \<^verbatim>\<open>send\<close>, with the device and the payload it is given.\<close>

datatype call =
    lumi_send xdevice payload
  | miot_send xdevice payload
  | silabs_send xdevice payload
  | matter_send xdevice payload

text \<open>
  What a run of statements does: the adapter calls made, in order, and the exception that
  ended the run, if one did.
\<close>

type_synonym outcome = "call list \<times> error option"

definition skip :: outcome where
  "skip = ([], None)"

text \<open>
  \<^verbatim>\<open>x = <expr>; await adapter(device, x)\<close>: an exception in the expression is raised before
  the adapter is called.
\<close>

definition call_with :: "(payload \<Rightarrow> call) \<Rightarrow> error + payload \<Rightarrow> outcome" where
  "call_with adapter x =
     (case x of Inl e \<Rightarrow> ([], Some e) | Inr d \<Rightarrow> ([adapter d], None))"

text \<open>Two statements in sequence: the second runs only if the first raised nothing.\<close>

definition seq :: "outcome \<Rightarrow> outcome \<Rightarrow> outcome" where
  "seq a b =
     (case snd a of
        Some e \<Rightarrow> a
      | None \<Rightarrow> (fst a @ fst b, snd b))"

text \<open>Gateway, lines 129-137: the payload for the lumi adapter.\<close>

definition gateway_lumi_data :: "payload \<Rightarrow> error + payload" where
  "gateway_lumi_data data =
     (if ''method'' \<in> dom data then
        (case getitem data ''cmd'' of
           Inl e \<Rightarrow> Inl e
         | Inr c \<Rightarrow>
             (case params_with ''res_name'' data of
                Inl e \<Rightarrow> Inl e
              | Inr ps \<Rightarrow>
                  Inr [''cmd'' \<mapsto> c, ''did'' \<mapsto> VStr ''lumi.0'', ''params'' \<mapsto> ps]))
      else Inr data)"

text \<open>Gateway, lines 141-148: the payload for the miot adapter.\<close>

definition gateway_miot_data :: "payload \<Rightarrow> error + payload" where
  "gateway_miot_data data =
     (if ''cmd'' \<in> dom data then
        (case getitem data ''method'' of
           Inl e \<Rightarrow> Inl e
         | Inr m \<Rightarrow>
             (case params_with ''siid'' data of
                Inl e \<Rightarrow> Inl e
              | Inr ps \<Rightarrow> Inr [''method'' \<mapsto> m, ''params'' \<mapsto> ps]))
      else Inr data)"

text \<open>Zigbee, lines 154-158: the payload for the lumi adapter.\<close>

definition zigbee_lumi_data :: "payload \<Rightarrow> error + payload" where
  "zigbee_lumi_data data =
     (if ''commands'' \<in> dom data then
        (case getitem data ''cmd'' of
           Inl e \<Rightarrow> Inl e
         | Inr c \<Rightarrow>
             (case getitem data ''did'' of
                Inl e \<Rightarrow> Inl e
              | Inr d \<Rightarrow>
                  (case getitem data ''params'' of
                     Inl e \<Rightarrow> Inl e
                   | Inr ps \<Rightarrow> Inr [''cmd'' \<mapsto> c, ''did'' \<mapsto> d, ''params'' \<mapsto> ps])))
      else Inr data)"

text \<open>Zigbee, line 162: the payload for the silabs adapter.\<close>

definition zigbee_silabs_data :: "payload \<Rightarrow> error + payload" where
  "zigbee_silabs_data data =
     (if ''cmd'' \<in> dom data then
        (case getitem data ''commands'' of
           Inl e \<Rightarrow> Inl e
         | Inr cs \<Rightarrow> Inr [''commands'' \<mapsto> cs])
      else Inr data)"

text \<open>
  \<^verbatim>\<open>send\<close>, lines 125-168. The adapters are other classes' methods; \<^verbatim>\<open>send\<close> awaits each
  and uses no result of theirs, so a call is recorded and taken to return.
\<close>

definition send :: "xdevice \<Rightarrow> payload \<Rightarrow> outcome" where
  "send device data =
     (if dev_type device = GATEWAY then
        seq
          (if ''cmd'' \<in> dom data
           then call_with (lumi_send device) (gateway_lumi_data data) else skip)
          (if ''method'' \<in> dom data
           then call_with (miot_send device) (gateway_miot_data data) else skip)
      else if dev_type device = ZIGBEE then
        seq
          (if ''cmd'' \<in> dom data
           then call_with (lumi_send device) (zigbee_lumi_data data) else skip)
          (if ''commands'' \<in> dom data
           then call_with (silabs_send device) (zigbee_silabs_data data) else skip)
      else if dev_type device \<in> {MESH, GROUP} then
        call_with (miot_send device) (Inr data)
      else if dev_type device = MATTER then
        call_with (matter_send device) (Inr data)
      else skip)"




section \<open>The bootstrap: \<^verbatim>\<open>prepare_gateway\<close>\<close>

text \<open>
  The session \<^verbatim>\<open>Session(self.host)\<close> is another module's class. A bootstrap sees it
  through the attributes the object exposes (\<^verbatim>\<open>hasattr\<close>) and through what each verb
  gives when awaited: a value, or an exception.
\<close>

record session =
  attrs :: "string list"
  aenter :: "error option"
  only_one :: "error + bool"
  get_miio_info :: "error + (string \<rightharpoonup> string)"
  get_version :: "error + string"
  aexit :: "error option"

definition hasattr :: "session \<Rightarrow> string \<Rightarrow> bool" where
  "hasattr sh name = (name \<in> set (attrs sh))"

text \<open>
  The inventory readers are methods of the adapter classes \<^verbatim>\<open>MultiGateway\<close> inherits
  from. \<open>ad r\<close> is what reader \<open>r\<close> does when awaited: \<open>None\<close> when it returns,
  \<open>Some e\<close> when it raises \<open>e\<close>.
\<close>

datatype reader =
    Base_read_device
  | Lumi_read_devices
  | Silabs_read_device
  | Openmiio_prepare_gateway
  | Ble_read_devices
  | Mesh_read_devices
  | Matter_read_devices

type_synonym adapters = "reader \<Rightarrow> error option"

datatype message =
    Second_hass_detected
  | Unsupported_firmware
  | Cant_prepare_gateway
  | Telnet_command string
  | Cant_run_telnet_command string

datatype effect =
    Open_session
  | Close_session
  | Only_one
  | Get_miio_info
  | Get_version
  | Read reader
  | Debug message
  | Error message
  | Run_ftp
  | Reboot
  | Exec string
  | Lock_firmware bool
  | Check_firmware_lock
  | Sleep nat
  | Check_port
  | Enable_telnet
  | Prepare_gateway
  | Handle_mqtt_messages

datatype event = EVENT_MQTT_PUBLISH | EVENT_TIMER

datatype handler =
    lumi_on_mqtt_publish
  | miot_on_mqtt_publish
  | openmiio_on_mqtt_publish
  | silabs_on_mqtt_publish
  | ble_on_mqtt_publish
  | mesh_on_mqtt_publish
  | matter_on_mqtt_publish
  | openmiio_on_timer
  | silabs_on_timer

type_synonym registry = "event \<Rightarrow> handler list"

text \<open>
  Modelled from the spec: \<^verbatim>\<open>add_event_listner\<close> is a method of the base class in
  \<^verbatim>\<open>gate/base.py\<close>, which is not among the sources. The spec (4.3): the registry maps
  an event kind to an ordered list of handlers, and adding a listener appends.
\<close>

definition add_event_listner :: "event \<Rightarrow> handler \<Rightarrow> registry \<Rightarrow> registry" where
  "add_event_listner ev h reg = reg(ev := reg ev @ [h])"

text \<open>How a block of statements ends: an exception, a \<^verbatim>\<open>return\<close>, or its last statement.\<close>

datatype 'a flow = Raise error | Return bool | Next 'a

text \<open>Awaits in sequence; the first reader that raises ends the run.\<close>

fun run_reads :: "adapters \<Rightarrow> reader list \<Rightarrow> effect list \<times> error option" where
  "run_reads ad [] = ([], None)"
| "run_reads ad (r # rs) =
     (case ad r of
        Some e \<Rightarrow> ([Read r], Some e)
      | None \<Rightarrow> (Read r # fst (run_reads ad rs), snd (run_reads ad rs)))"

text \<open>Lines 91-103: the readers awaited for a session and a reported model, in order.\<close>

definition inventory :: "session \<Rightarrow> string \<Rightarrow> reader list" where
  "inventory sh model =
     [Base_read_device, Lumi_read_devices, Silabs_read_device, Openmiio_prepare_gateway]
     @ (if hasattr sh ''read_db_bluetooth'' then [Ble_read_devices, Mesh_read_devices] else [])
     @ (if model = ''lumi.gateway.mgl001'' then [Matter_read_devices] else [])"

text \<open>
  Lines 77-103, the body of the \<^verbatim>\<open>async with\<close>. Version strings are compared as Python
  compares strings: lexicographically, character by character.
\<close>

definition session_body :: "session \<Rightarrow> adapters \<Rightarrow> effect list \<times> (string \<rightharpoonup> string) flow" where
  "session_body sh ad =
     (case only_one sh of
        Inl e \<Rightarrow> ([Only_one], Raise e)
      | Inr one \<Rightarrow>
          if \<not> one then ([Only_one, Debug Second_hass_detected], Return False)
          else
            (case get_miio_info sh of
               Inl e \<Rightarrow> ([Only_one, Get_miio_info], Raise e)
             | Inr info0 \<Rightarrow>
                 (case get_version sh of
                    Inl e \<Rightarrow> ([Only_one, Get_miio_info, Get_version], Raise e)
                  | Inr version \<Rightarrow>
                      (let info = info0(''version'' \<mapsto> version) in
                       case info ''model'' of
                         None \<Rightarrow>
                           ([Only_one, Get_miio_info, Get_version], Raise (KeyError ''model''))
                       | Some model \<Rightarrow>
                           if model = ''lumi.gateway.mgl03'' \<and> version < ''1.4.7_0160''
                           then ([Only_one, Get_miio_info, Get_version,
                                  Error Unsupported_firmware], Return False)
                           else
                             (case snd (run_reads ad (inventory sh model)) of
                                Some e \<Rightarrow>
                                  ([Only_one, Get_miio_info, Get_version]
                                   @ fst (run_reads ad (inventory sh model)), Raise e)
                              | None \<Rightarrow>
                                  ([Only_one, Get_miio_info, Get_version]
                                   @ fst (run_reads ad (inventory sh model)), Next info))))))"

text \<open>
  Line 76, \<^verbatim>\<open>async with Session(self.host) as sh\<close>: the session is closed on every way
  out of the body, and an exception of the body or of the closing is raised further.
\<close>

definition with_session :: "session \<Rightarrow> adapters \<Rightarrow> effect list \<times> (string \<rightharpoonup> string) flow" where
  "with_session sh ad =
     (case aenter sh of
        Some e \<Rightarrow> ([Open_session], Raise e)
      | None \<Rightarrow>
          (case aexit sh of
             Some e \<Rightarrow> (Open_session # fst (session_body sh ad) @ [Close_session], Raise e)
           | None \<Rightarrow>
               (Open_session # fst (session_body sh ad) @ [Close_session],
                snd (session_body sh ad))))"

text \<open>Lines 105-118: the listeners added after the session is closed, in order.\<close>

definition listeners :: "session \<Rightarrow> string \<Rightarrow> (event \<times> handler) list" where
  "listeners sh model =
     [(EVENT_MQTT_PUBLISH, lumi_on_mqtt_publish),
      (EVENT_MQTT_PUBLISH, miot_on_mqtt_publish),
      (EVENT_MQTT_PUBLISH, openmiio_on_mqtt_publish),
      (EVENT_MQTT_PUBLISH, silabs_on_mqtt_publish)]
     @ (if hasattr sh ''read_db_bluetooth''
        then [(EVENT_MQTT_PUBLISH, ble_on_mqtt_publish),
              (EVENT_MQTT_PUBLISH, mesh_on_mqtt_publish)]
        else [])
     @ (if model = ''lumi.gateway.mgl001''
        then [(EVENT_MQTT_PUBLISH, matter_on_mqtt_publish)] else [])
     @ [(EVENT_TIMER, openmiio_on_timer), (EVENT_TIMER, silabs_on_timer)]"

fun add_all :: "(event \<times> handler) list \<Rightarrow> registry \<Rightarrow> registry" where
  "add_all [] reg = reg"
| "add_all ((ev, h) # rest) reg = add_all rest (add_event_listner ev h reg)"

text \<open>
  \<^verbatim>\<open>prepare_gateway\<close>, lines 74-123: the value returned, the registry afterwards and the
  effects, in order. \<^verbatim>\<open>except Exception\<close> turns every exception into \<^verbatim>\<open>False\<close>.
\<close>

record bootstrap =
  result :: bool
  registry_after :: registry
  trace :: "effect list"

definition prepare_gateway :: "session \<Rightarrow> adapters \<Rightarrow> registry \<Rightarrow> bootstrap" where
  "prepare_gateway sh ad reg =
     (case snd (with_session sh ad) of
        Raise e \<Rightarrow>
          \<lparr>result = False, registry_after = reg,
           trace = fst (with_session sh ad) @ [Debug Cant_prepare_gateway]\<rparr>
      | Return b \<Rightarrow>
          \<lparr>result = b, registry_after = reg, trace = fst (with_session sh ad)\<rparr>
      | Next info \<Rightarrow>
          (case info ''model'' of
             None \<Rightarrow>
               \<lparr>result = False, registry_after = reg,
                trace = fst (with_session sh ad) @ [Debug Cant_prepare_gateway]\<rparr>
           | Some model \<Rightarrow>
               \<lparr>result = True, registry_after = add_all (listeners sh model) reg,
                trace = fst (with_session sh ad)\<rparr>))"


section \<open>The administrative commands: \<^verbatim>\<open>telnet_command\<close>\<close>

text \<open>
  The verbs of the session that \<^verbatim>\<open>telnet_command\<close> uses, each with what it gives when
  awaited. \<open>check_firmware_lock\<close> is what the check answers after the steps before it.
\<close>

record telnet_session = session +
  run_ftp :: "error option"
  reboot :: "error option"
  exec :: "error option"
  lock_firmware :: "bool \<Rightarrow> error option"
  check_firmware_lock :: "error + bool"

text \<open>The command names of the \<^verbatim>\<open>if\<close>/\<^verbatim>\<open>elif\<close> chain, lines 174-190.\<close>

definition commands :: "string list" where
  "commands =
     [''run_ftp'', ''reboot'', ''openmiio_restart'', ''check_firmware_lock'',
      ''lock_firmware'', ''unlock_firmware'']"

text \<open>Awaits in sequence, each with its outcome; the first that raises ends the run.\<close>

fun run_steps :: "(effect \<times> error option) list \<Rightarrow> effect list \<times> error option" where
  "run_steps [] = ([], None)"
| "run_steps ((a, None) # rest) = (a # fst (run_steps rest), snd (run_steps rest))"
| "run_steps ((a, Some e) # rest) = ([a], Some e)"

text \<open>Some steps, then \<^verbatim>\<open>return v\<close>.\<close>

definition then_return :: "(effect \<times> error option) list \<Rightarrow> bool \<Rightarrow> effect list \<times> unit flow" where
  "then_return steps v =
     (case snd (run_steps steps) of
        Some e \<Rightarrow> (fst (run_steps steps), Raise e)
      | None \<Rightarrow> (fst (run_steps steps), Return v))"

text \<open>Some steps, then \<^verbatim>\<open>return f(await sh.check_firmware_lock())\<close>.\<close>

definition then_check ::
  "'a telnet_session_scheme \<Rightarrow> (effect \<times> error option) list \<Rightarrow> (bool \<Rightarrow> bool)
     \<Rightarrow> effect list \<times> unit flow" where
  "then_check sh steps f =
     (case snd (run_steps steps) of
        Some e \<Rightarrow> (fst (run_steps steps), Raise e)
      | None \<Rightarrow>
          (case check_firmware_lock sh of
             Inl e \<Rightarrow> (fst (run_steps steps) @ [Check_firmware_lock], Raise e)
           | Inr locked \<Rightarrow> (fst (run_steps steps) @ [Check_firmware_lock], Return (f locked))))"

text \<open>
  Lines 174-192, the body of the \<^verbatim>\<open>async with\<close>. A name that matches no branch falls
  through the chain.
\<close>

definition telnet_body ::
  "'a telnet_session_scheme \<Rightarrow> adapters \<Rightarrow> string \<Rightarrow> effect list \<times> unit flow" where
  "telnet_body sh ad cmd =
     (if cmd = ''run_ftp'' then then_return [(Run_ftp, run_ftp sh)] True
      else if cmd = ''reboot'' then then_return [(Reboot, reboot sh)] True
      else if cmd = ''openmiio_restart'' then
        then_return
          [(Exec ''killall openmiio_agent'', exec sh),
           (Sleep 1, None),
           (Read Openmiio_prepare_gateway, ad Openmiio_prepare_gateway)] True
      else if cmd = ''check_firmware_lock'' then then_check sh [] (\<lambda>locked. locked)
      else if cmd = ''lock_firmware'' then
        then_check sh [(Lock_firmware True, lock_firmware sh True)] (\<lambda>locked. locked = True)
      else if cmd = ''unlock_firmware'' then
        then_check sh [(Lock_firmware False, lock_firmware sh False)] (\<lambda>locked. locked = False)
      else ([], Next ()))"

text \<open>Line 173: the body inside \<^verbatim>\<open>async with Session(self.host) as sh\<close>.\<close>

definition telnet_try ::
  "'a telnet_session_scheme \<Rightarrow> adapters \<Rightarrow> string \<Rightarrow> effect list \<times> unit flow" where
  "telnet_try sh ad cmd =
     (case aenter sh of
        Some e \<Rightarrow> ([Open_session], Raise e)
      | None \<Rightarrow>
          (case aexit sh of
             Some e \<Rightarrow> (Open_session # fst (telnet_body sh ad cmd) @ [Close_session], Raise e)
           | None \<Rightarrow>
               (Open_session # fst (telnet_body sh ad cmd) @ [Close_session],
                snd (telnet_body sh ad cmd))))"

text \<open>
  \<^verbatim>\<open>telnet_command\<close>, lines 170-195: the value returned (\<open>None\<close> is Python's \<^verbatim>\<open>None\<close>)
  and the effects. The \<^verbatim>\<open>except\<close> branch logs and falls off the end of the function.
\<close>

definition telnet_command ::
  "'a telnet_session_scheme \<Rightarrow> adapters \<Rightarrow> string \<Rightarrow> bool option \<times> effect list" where
  "telnet_command sh ad cmd =
     (case snd (telnet_try sh ad cmd) of
        Raise e \<Rightarrow>
          (None, Debug (Telnet_command cmd) # fst (telnet_try sh ad cmd)
                 @ [Error (Cant_run_telnet_command cmd)])
      | Return v \<Rightarrow> (Some v, Debug (Telnet_command cmd) # fst (telnet_try sh ad cmd))
      | Next u \<Rightarrow> (None, Debug (Telnet_command cmd) # fst (telnet_try sh ad cmd)))"

section \<open>The supervisor: \<^verbatim>\<open>run_forever\<close>\<close>








section \<open>The run-state: \<^verbatim>\<open>start\<close> and \<^verbatim>\<open>stop\<close>\<close>

text \<open>
  The tasks of the event loop are kept in a table, and \<^verbatim>\<open>main_task\<close> is a handle into it.
  What a task is belongs to \<^verbatim>\<open>asyncio\<close>: the code only asks whether it is
  \<^verbatim>\<open>cancelled()\<close>, and changes it by \<^verbatim>\<open>cancel()\<close> followed by \<^verbatim>\<open>await asyncio.sleep(0.1)\<close>.
\<close>

record 't asyncio =
  cancelled :: "'t \<Rightarrow> bool"
  cancel_sleep :: "'t \<Rightarrow> 't"

record 't gateway =
  main_task :: "nat option"
  tasks :: "'t list"

text \<open>
  \<^verbatim>\<open>start\<close>, lines 28-32. \<open>new\<close> is the task that
  \<^verbatim>\<open>asyncio.create_task(self.run_forever())\<close> makes.
\<close>

definition start :: "'t \<Rightarrow> 't gateway \<Rightarrow> 't gateway" where
  "start new g =
     (if main_task g \<noteq> None then g
      else g\<lparr>main_task := Some (length (tasks g)), tasks := tasks g @ [new]\<rparr>)"

text \<open>
  Lines 41-43, the loop of \<^verbatim>\<open>stop\<close>: the task at the end and the number of cancel
  requests made; \<open>None\<close> when the loop never ends.
\<close>

partial_function (option) cancel_loop :: "'t asyncio \<Rightarrow> 't \<Rightarrow> nat \<Rightarrow> ('t \<times> nat) option" where
  "cancel_loop aio t n =
     (if \<not> cancelled aio t then cancel_loop aio (cancel_sleep aio t) (Suc n)
      else Some (t, n))"

text \<open>
  \<^verbatim>\<open>stop\<close>, lines 34-44: the run-state afterwards and the number of cancel requests.
\<close>

definition stop :: "'t asyncio \<Rightarrow> 't gateway \<Rightarrow> ('t gateway \<times> nat) option" where
  "stop aio g =
     (case main_task g of
        None \<Rightarrow> Some (g, 0)
      | Some h \<Rightarrow>
          (case cancel_loop aio (tasks g ! h) 0 of
             None \<Rightarrow> None
           | Some (t, n) \<Rightarrow> Some (g\<lparr>main_task := None, tasks := (tasks g)[h := t]\<rparr>, n)))"

text \<open>The tasks that are not cancelled.\<close>

definition live :: "'t asyncio \<Rightarrow> 't gateway \<Rightarrow> 't list" where
  "live aio g = filter (\<lambda>t. \<not> cancelled aio t) (tasks g)"

text \<open>
  The run-state is sound when \<^verbatim>\<open>main_task\<close> is a task of the table and every other task
  of the table is cancelled.
\<close>

definition supervised :: "'t asyncio \<Rightarrow> 't gateway \<Rightarrow> bool" where
  "supervised aio g =
     (case main_task g of
        None \<Rightarrow> list_all (cancelled aio) (tasks g)
      | Some h \<Rightarrow>
          h < length (tasks g)
          \<and> list_all (cancelled aio) (take h (tasks g))
          \<and> list_all (cancelled aio) (drop (Suc h) (tasks g)))"

text \<open>The run-states a gateway can be in: it is created with no task, then started and stopped.\<close>

inductive reachable :: "'t asyncio \<Rightarrow> 't gateway \<Rightarrow> bool" for aio :: "'t asyncio" where
  created: "reachable aio \<lparr>main_task = None, tasks = []\<rparr>"
| started: "reachable aio g \<Longrightarrow> reachable aio (start new g)"
| stopped: "reachable aio g \<Longrightarrow> stop aio g = Some (g', n) \<Longrightarrow> reachable aio g'"

section \<open>Properties of \<^verbatim>\<open>send\<close>\<close>

lemma restrict_triple:
  "data ''cmd'' = Some c \<Longrightarrow> data ''did'' = Some d \<Longrightarrow> data ''params'' = Some ps \<Longrightarrow>
   [''cmd'' \<mapsto> c, ''did'' \<mapsto> d, ''params'' \<mapsto> ps] = data |` {''cmd'', ''did'', ''params''}"
  by (rule ext) (simp add: restrict_map_def)

lemma restrict_commands:
  "data ''commands'' = Some cs \<Longrightarrow> [''commands'' \<mapsto> cs] = data |` {''commands''}"
  by (rule ext) (simp add: restrict_map_def)




text \<open>
  C4. For a Zigbee end-device: a payload with the keys \<^verbatim>\<open>cmd\<close>, \<^verbatim>\<open>did\<close>, \<^verbatim>\<open>params\<close> and
  \<^verbatim>\<open>commands\<close> makes exactly two adapter calls, in this order: the lumi adapter with the
  payload restricted to \<^verbatim>\<open>cmd\<close>, \<^verbatim>\<open>did\<close>, \<^verbatim>\<open>params\<close>, and the silabs adapter with the
  payload restricted to \<^verbatim>\<open>commands\<close>. With \<^verbatim>\<open>cmd\<close> and no \<^verbatim>\<open>commands\<close> only the lumi
  adapter is called, with \<^verbatim>\<open>commands\<close> and no \<^verbatim>\<open>cmd\<close> only the silabs adapter, each with the
  payload as it was given.
\<close>

theorem send_zigbee_fan_out:
  assumes z: "dev_type device = ZIGBEE"
  shows "(''cmd'' \<in> dom data \<and> ''did'' \<in> dom data \<and> ''params'' \<in> dom data
            \<and> ''commands'' \<in> dom data \<longrightarrow>
            send device data =
              ([lumi_send device (data |` {''cmd'', ''did'', ''params''}),
                silabs_send device (data |` {''commands''})], None))
       \<and> (''cmd'' \<in> dom data \<and> ''commands'' \<notin> dom data \<longrightarrow>
            send device data = ([lumi_send device data], None))
       \<and> (''commands'' \<in> dom data \<and> ''cmd'' \<notin> dom data \<longrightarrow>
            send device data = ([silabs_send device data], None))"
proof (intro conjI impI)
  assume a: "''cmd'' \<in> dom data \<and> ''did'' \<in> dom data \<and> ''params'' \<in> dom data
      \<and> ''commands'' \<in> dom data"
  then obtain c d ps cs where v: "data ''cmd'' = Some c" "data ''did'' = Some d"
      "data ''params'' = Some ps" "data ''commands'' = Some cs"
    by blast
  have l: "zigbee_lumi_data data = Inr (data |` {''cmd'', ''did'', ''params''})"
    using a v restrict_triple [of data c d ps]
    by (simp add: zigbee_lumi_data_def getitem_def)
  have s: "zigbee_silabs_data data = Inr (data |` {''commands''})"
    using a v restrict_commands [of data cs]
    by (simp add: zigbee_silabs_data_def getitem_def)
  show "send device data =
      ([lumi_send device (data |` {''cmd'', ''did'', ''params''}),
        silabs_send device (data |` {''commands''})], None)"
    using z a l s by (simp add: send_def seq_def call_with_def)
next
  assume "''cmd'' \<in> dom data \<and> ''commands'' \<notin> dom data"
  then show "send device data = ([lumi_send device data], None)"
    using z by (simp add: send_def seq_def call_with_def skip_def zigbee_lumi_data_def)
next
  assume "''commands'' \<in> dom data \<and> ''cmd'' \<notin> dom data"
  then show "send device data = ([silabs_send device data], None)"
    using z by (simp add: send_def seq_def call_with_def skip_def zigbee_silabs_data_def)
qed

theorem send_zigbee_fan_out_witness:
  "send \<lparr>did = ''lumi.158d01'', dev_type = ZIGBEE\<rparr>
        [''cmd'' \<mapsto> VStr ''write'', ''did'' \<mapsto> VStr ''lumi.158d01'',
         ''params'' \<mapsto> VList [VDict [(''res_name'', VStr ''4.1.85''), (''value'', VInt 1)]],
         ''commands'' \<mapsto> VList [VDict [(''endpoint'', VInt 1), (''cluster'', VStr ''on_off'')]]]
     = ([lumi_send \<lparr>did = ''lumi.158d01'', dev_type = ZIGBEE\<rparr>
           ([''cmd'' \<mapsto> VStr ''write'', ''did'' \<mapsto> VStr ''lumi.158d01'',
             ''params'' \<mapsto> VList [VDict [(''res_name'', VStr ''4.1.85''), (''value'', VInt 1)]],
             ''commands'' \<mapsto>
               VList [VDict [(''endpoint'', VInt 1), (''cluster'', VStr ''on_off'')]]]
            |` {''cmd'', ''did'', ''params''}),
         silabs_send \<lparr>did = ''lumi.158d01'', dev_type = ZIGBEE\<rparr>
           ([''cmd'' \<mapsto> VStr ''write'', ''did'' \<mapsto> VStr ''lumi.158d01'',
             ''params'' \<mapsto> VList [VDict [(''res_name'', VStr ''4.1.85''), (''value'', VInt 1)]],
             ''commands'' \<mapsto>
               VList [VDict [(''endpoint'', VInt 1), (''cluster'', VStr ''on_off'')]]]
            |` {''commands''})], None)
   \<and> send \<lparr>did = ''lumi.158d01'', dev_type = ZIGBEE\<rparr>
        [''cmd'' \<mapsto> VStr ''read'', ''did'' \<mapsto> VStr ''lumi.158d01'']
     = ([lumi_send \<lparr>did = ''lumi.158d01'', dev_type = ZIGBEE\<rparr>
           [''cmd'' \<mapsto> VStr ''read'', ''did'' \<mapsto> VStr ''lumi.158d01'']], None)
   \<and> send \<lparr>did = ''lumi.158d01'', dev_type = ZIGBEE\<rparr> [''commands'' \<mapsto> VList []]
     = ([silabs_send \<lparr>did = ''lumi.158d01'', dev_type = ZIGBEE\<rparr>
           [''commands'' \<mapsto> VList []]], None)"
  using
    send_zigbee_fan_out [of "\<lparr>did = ''lumi.158d01'', dev_type = ZIGBEE\<rparr>"
      "[''cmd'' \<mapsto> VStr ''write'', ''did'' \<mapsto> VStr ''lumi.158d01'',
        ''params'' \<mapsto> VList [VDict [(''res_name'', VStr ''4.1.85''), (''value'', VInt 1)]],
        ''commands'' \<mapsto> VList [VDict [(''endpoint'', VInt 1), (''cluster'', VStr ''on_off'')]]]"]
    send_zigbee_fan_out [of "\<lparr>did = ''lumi.158d01'', dev_type = ZIGBEE\<rparr>"
      "[''cmd'' \<mapsto> VStr ''read'', ''did'' \<mapsto> VStr ''lumi.158d01'']"]
    send_zigbee_fan_out [of "\<lparr>did = ''lumi.158d01'', dev_type = ZIGBEE\<rparr>"
      "[''commands'' \<mapsto> VList []]"]
  by simp




text \<open>
  C10. The multispec paths read their keys without a test. For the gateway, a payload
  with \<^verbatim>\<open>cmd\<close> and \<^verbatim>\<open>method\<close> and no \<^verbatim>\<open>params\<close> raises \<^verbatim>\<open>KeyError\<close> before any adapter
  is called; for a Zigbee device, a payload with \<^verbatim>\<open>cmd\<close> and \<^verbatim>\<open>commands\<close> raises
  \<^verbatim>\<open>KeyError\<close> before any adapter is called when \<^verbatim>\<open>did\<close> is missing, and when \<^verbatim>\<open>params\<close> is.
  So the Zigbee fan-out raises nothing exactly when \<^verbatim>\<open>did\<close> and \<^verbatim>\<open>params\<close> are present, and
  the gateway fan-out raises nothing only when \<^verbatim>\<open>params\<close> is.
\<close>

theorem send_multispec_raises:
  "(dev_type device = GATEWAY \<and> ''cmd'' \<in> dom data \<and> ''method'' \<in> dom data
      \<and> ''params'' \<notin> dom data \<longrightarrow>
      send device data = ([], Some (KeyError ''params'')))
 \<and> (dev_type device = ZIGBEE \<and> ''cmd'' \<in> dom data \<and> ''commands'' \<in> dom data
      \<and> ''did'' \<notin> dom data \<longrightarrow>
      send device data = ([], Some (KeyError ''did'')))
 \<and> (dev_type device = ZIGBEE \<and> ''cmd'' \<in> dom data \<and> ''commands'' \<in> dom data
      \<and> ''did'' \<in> dom data \<and> ''params'' \<notin> dom data \<longrightarrow>
      send device data = ([], Some (KeyError ''params'')))
 \<and> (dev_type device = ZIGBEE \<and> ''cmd'' \<in> dom data \<and> ''commands'' \<in> dom data \<longrightarrow>
      (snd (send device data) = None) = (''did'' \<in> dom data \<and> ''params'' \<in> dom data))
 \<and> (dev_type device = GATEWAY \<and> ''cmd'' \<in> dom data \<and> ''method'' \<in> dom data
      \<and> snd (send device data) = None \<longrightarrow> ''params'' \<in> dom data)"
proof (intro conjI impI)
  assume "dev_type device = GATEWAY \<and> ''cmd'' \<in> dom data \<and> ''method'' \<in> dom data
      \<and> ''params'' \<notin> dom data"
  then show "send device data = ([], Some (KeyError ''params''))"
    by (auto simp add: send_def seq_def call_with_def gateway_lumi_data_def params_with_def
        getitem_def domIff)
next
  assume "dev_type device = ZIGBEE \<and> ''cmd'' \<in> dom data \<and> ''commands'' \<in> dom data
      \<and> ''did'' \<notin> dom data"
  then show "send device data = ([], Some (KeyError ''did''))"
    by (auto simp add: send_def seq_def call_with_def zigbee_lumi_data_def getitem_def domIff)
next
  assume "dev_type device = ZIGBEE \<and> ''cmd'' \<in> dom data \<and> ''commands'' \<in> dom data
      \<and> ''did'' \<in> dom data \<and> ''params'' \<notin> dom data"
  then show "send device data = ([], Some (KeyError ''params''))"
    by (auto simp add: send_def seq_def call_with_def zigbee_lumi_data_def getitem_def domIff)
next
  assume "dev_type device = ZIGBEE \<and> ''cmd'' \<in> dom data \<and> ''commands'' \<in> dom data"
  then show "(snd (send device data) = None) = (''did'' \<in> dom data \<and> ''params'' \<in> dom data)"
    by (auto simp add: send_def seq_def call_with_def zigbee_lumi_data_def
        zigbee_silabs_data_def getitem_def domIff split: option.splits)
next
  assume "dev_type device = GATEWAY \<and> ''cmd'' \<in> dom data \<and> ''method'' \<in> dom data
      \<and> snd (send device data) = None"
  then show "''params'' \<in> dom data"
    by (auto simp add: send_def seq_def call_with_def gateway_lumi_data_def params_with_def
        getitem_def domIff split: option.splits)
qed

theorem send_multispec_raises_witness:
  "send \<lparr>did = ''lumi.0'', dev_type = GATEWAY\<rparr>
        [''cmd'' \<mapsto> VStr ''write'', ''method'' \<mapsto> VStr ''set_properties'']
     = ([], Some (KeyError ''params''))
   \<and> send \<lparr>did = ''lumi.158d01'', dev_type = ZIGBEE\<rparr>
        [''cmd'' \<mapsto> VStr ''write'', ''commands'' \<mapsto> VList [], ''params'' \<mapsto> VList []]
     = ([], Some (KeyError ''did''))
   \<and> send \<lparr>did = ''lumi.158d01'', dev_type = ZIGBEE\<rparr>
        [''cmd'' \<mapsto> VStr ''write'', ''commands'' \<mapsto> VList [], ''did'' \<mapsto> VStr ''lumi.158d01'']
     = ([], Some (KeyError ''params''))
   \<and> snd (send \<lparr>did = ''lumi.158d01'', dev_type = ZIGBEE\<rparr>
        [''cmd'' \<mapsto> VStr ''write'', ''commands'' \<mapsto> VList [], ''did'' \<mapsto> VStr ''lumi.158d01'',
         ''params'' \<mapsto> VList []]) = None
   \<and> snd (send \<lparr>did = ''lumi.0'', dev_type = GATEWAY\<rparr>
        [''cmd'' \<mapsto> VStr ''write'', ''method'' \<mapsto> VStr ''set_properties'',
         ''params'' \<mapsto> VList []]) = None"
  using
    send_multispec_raises [of "\<lparr>did = ''lumi.0'', dev_type = GATEWAY\<rparr>"
      "[''cmd'' \<mapsto> VStr ''write'', ''method'' \<mapsto> VStr ''set_properties'']"]
    send_multispec_raises [of "\<lparr>did = ''lumi.158d01'', dev_type = ZIGBEE\<rparr>"
      "[''cmd'' \<mapsto> VStr ''write'', ''commands'' \<mapsto> VList [], ''params'' \<mapsto> VList []]"]
    send_multispec_raises [of "\<lparr>did = ''lumi.158d01'', dev_type = ZIGBEE\<rparr>"
      "[''cmd'' \<mapsto> VStr ''write'', ''commands'' \<mapsto> VList [],
        ''did'' \<mapsto> VStr ''lumi.158d01'']"]
    send_multispec_raises [of "\<lparr>did = ''lumi.158d01'', dev_type = ZIGBEE\<rparr>"
      "[''cmd'' \<mapsto> VStr ''write'', ''commands'' \<mapsto> VList [], ''did'' \<mapsto> VStr ''lumi.158d01'',
        ''params'' \<mapsto> VList []]"]
  by (simp add: send_def seq_def call_with_def gateway_lumi_data_def gateway_miot_data_def
      params_with_def getitem_def)

section \<open>Properties of \<^verbatim>\<open>prepare_gateway\<close>\<close>











text \<open>
  C8. When the session is open and \<^verbatim>\<open>only_one\<close> answers false, \<^verbatim>\<open>prepare_gateway\<close>
  returns \<^verbatim>\<open>False\<close>, leaves the registry as it was, and does nothing but open the session,
  ask, log and close the session: no identity or version fetch and no inventory read.
\<close>

theorem prepare_gateway_second_manager:
  assumes "aenter sh = None" and "only_one sh = Inr False"
  shows "result (prepare_gateway sh ad reg) = False
       \<and> registry_after (prepare_gateway sh ad reg) = reg
       \<and> trace (prepare_gateway sh ad reg) =
           [Open_session, Only_one, Debug Second_hass_detected, Close_session]
           @ (case aexit sh of None \<Rightarrow> [] | Some e \<Rightarrow> [Debug Cant_prepare_gateway])
       \<and> Get_miio_info \<notin> set (trace (prepare_gateway sh ad reg))
       \<and> Get_version \<notin> set (trace (prepare_gateway sh ad reg))
       \<and> (\<forall>r. Read r \<notin> set (trace (prepare_gateway sh ad reg)))"
  using assms
  by (cases "aexit sh") (simp_all add: prepare_gateway_def with_session_def session_body_def)

theorem prepare_gateway_second_manager_witness:
  "result (prepare_gateway
      \<lparr>attrs = [''read_db_bluetooth''], aenter = None, only_one = Inr False,
       get_miio_info = Inr [''model'' \<mapsto> ''lumi.gateway.mgl03''],
       get_version = Inr ''1.5.0_0102'', aexit = None\<rparr> (\<lambda>r. None) (\<lambda>ev. [])) = False
   \<and> registry_after (prepare_gateway
      \<lparr>attrs = [''read_db_bluetooth''], aenter = None, only_one = Inr False,
       get_miio_info = Inr [''model'' \<mapsto> ''lumi.gateway.mgl03''],
       get_version = Inr ''1.5.0_0102'', aexit = None\<rparr> (\<lambda>r. None) (\<lambda>ev. [])) = (\<lambda>ev. [])
   \<and> trace (prepare_gateway
      \<lparr>attrs = [''read_db_bluetooth''], aenter = None, only_one = Inr False,
       get_miio_info = Inr [''model'' \<mapsto> ''lumi.gateway.mgl03''],
       get_version = Inr ''1.5.0_0102'', aexit = None\<rparr> (\<lambda>r. None) (\<lambda>ev. []))
     = [Open_session, Only_one, Debug Second_hass_detected, Close_session]"
  using prepare_gateway_second_manager
    [of "\<lparr>attrs = [''read_db_bluetooth''], aenter = None, only_one = Inr False,
       get_miio_info = Inr [''model'' \<mapsto> ''lumi.gateway.mgl03''],
       get_version = Inr ''1.5.0_0102'', aexit = None\<rparr>" "\<lambda>r. None" "\<lambda>ev. []"]
  by simp

text \<open>
  C9. For a session that reports the model \<^verbatim>\<open>lumi.gateway.mgl03\<close> and a version string
  ordered below \<^verbatim>\<open>1.4.7_0160\<close>, \<^verbatim>\<open>prepare_gateway\<close> returns \<^verbatim>\<open>False\<close> with no inventory
  read and no listener added; when the steps before the test went through, it logs the
  unsupported firmware and closes the session.
\<close>

theorem prepare_gateway_old_firmware:
  assumes "get_miio_info sh = Inr info" and "info ''model'' = Some ''lumi.gateway.mgl03''"
    and "get_version sh = Inr version" and "version < ''1.4.7_0160''"
  shows "result (prepare_gateway sh ad reg) = False
       \<and> registry_after (prepare_gateway sh ad reg) = reg
       \<and> (\<forall>r. Read r \<notin> set (trace (prepare_gateway sh ad reg)))
       \<and> (aenter sh = None \<and> only_one sh = Inr True \<longrightarrow>
            trace (prepare_gateway sh ad reg) =
              [Open_session, Only_one, Get_miio_info, Get_version, Error Unsupported_firmware,
               Close_session]
              @ (case aexit sh of None \<Rightarrow> [] | Some e \<Rightarrow> [Debug Cant_prepare_gateway]))"
  using assms
  by (cases "aenter sh"; cases "aexit sh"; cases "only_one sh")
     (simp_all add: prepare_gateway_def with_session_def session_body_def)

theorem prepare_gateway_old_firmware_witness:
  "''1.4.6_0043'' < ''1.4.7_0160''
   \<and> result (prepare_gateway
      \<lparr>attrs = [''read_db_bluetooth''], aenter = None, only_one = Inr True,
       get_miio_info = Inr [''model'' \<mapsto> ''lumi.gateway.mgl03''],
       get_version = Inr ''1.4.6_0043'', aexit = None\<rparr> (\<lambda>r. None) (\<lambda>ev. [])) = False
   \<and> trace (prepare_gateway
      \<lparr>attrs = [''read_db_bluetooth''], aenter = None, only_one = Inr True,
       get_miio_info = Inr [''model'' \<mapsto> ''lumi.gateway.mgl03''],
       get_version = Inr ''1.4.6_0043'', aexit = None\<rparr> (\<lambda>r. None) (\<lambda>ev. []))
     = [Open_session, Only_one, Get_miio_info, Get_version, Error Unsupported_firmware,
        Close_session]"
  using prepare_gateway_old_firmware
    [of "\<lparr>attrs = [''read_db_bluetooth''], aenter = None, only_one = Inr True,
       get_miio_info = Inr [''model'' \<mapsto> ''lumi.gateway.mgl03''],
       get_version = Inr ''1.4.6_0043'', aexit = None\<rparr>"
       "[''model'' \<mapsto> ''lumi.gateway.mgl03'']" "''1.4.6_0043''" "\<lambda>r. None" "\<lambda>ev. []"]
  by simp




section \<open>Properties of \<^verbatim>\<open>telnet_command\<close>\<close>

lemma telnet_body_unknown: "cmd \<notin> set commands \<Longrightarrow> telnet_body sh ad cmd = ([], Next ())"
  by (simp add: commands_def telnet_body_def)

lemma telnet_command_unknown:
  "cmd \<notin> set commands \<Longrightarrow> fst (telnet_command sh ad cmd) = None"
  by (cases "aenter sh"; cases "aexit sh")
     (simp_all add: telnet_command_def telnet_try_def telnet_body_unknown)

lemma telnet_lock_body:
  "telnet_body sh ad ''lock_firmware'' =
     (case lock_firmware sh True of
        Some e \<Rightarrow> ([Lock_firmware True], Raise e)
      | None \<Rightarrow>
          (case check_firmware_lock sh of
             Inl e \<Rightarrow> ([Lock_firmware True, Check_firmware_lock], Raise e)
           | Inr locked \<Rightarrow> ([Lock_firmware True, Check_firmware_lock], Return locked)))"
  by (cases "lock_firmware sh True"; cases "check_firmware_lock sh")
     (simp_all add: telnet_body_def then_check_def)

lemma telnet_value:
  "fst (telnet_command sh ad cmd) =
     (if aenter sh \<noteq> None \<or> aexit sh \<noteq> None then None
      else (case snd (telnet_body sh ad cmd) of
              Raise e \<Rightarrow> None | Return v \<Rightarrow> Some v | Next u \<Rightarrow> None))"
  by (cases "aenter sh"; cases "aexit sh"; cases "snd (telnet_body sh ad cmd)")
     (simp_all add: telnet_command_def telnet_try_def)

lemma telnet_bodies:
  "snd (telnet_body sh ad ''run_ftp'') =
     (case run_ftp sh of None \<Rightarrow> Return True | Some e \<Rightarrow> Raise e)"
  "snd (telnet_body sh ad ''reboot'') =
     (case reboot sh of None \<Rightarrow> Return True | Some e \<Rightarrow> Raise e)"
  "snd (telnet_body sh ad ''openmiio_restart'') =
     (case exec sh of
        Some e \<Rightarrow> Raise e
      | None \<Rightarrow>
          (case ad Openmiio_prepare_gateway of None \<Rightarrow> Return True | Some e \<Rightarrow> Raise e))"
  "snd (telnet_body sh ad ''check_firmware_lock'') =
     (case check_firmware_lock sh of Inl e \<Rightarrow> Raise e | Inr locked \<Rightarrow> Return locked)"
  "snd (telnet_body sh ad ''unlock_firmware'') =
     (case lock_firmware sh False of
        Some e \<Rightarrow> Raise e
      | None \<Rightarrow>
          (case check_firmware_lock sh of
             Inl e \<Rightarrow> Raise e | Inr locked \<Rightarrow> Return (\<not> locked)))"
  by (simp_all add: telnet_body_def then_return_def then_check_def
      split: option.splits sum.splits)


text \<open>
  C6. \<^verbatim>\<open>telnet_command("lock_firmware")\<close>, when nothing raises, locks the firmware, asks
  \<^verbatim>\<open>check_firmware_lock\<close> and returns what the check answers: \<^verbatim>\<open>True\<close> when it reports
  locked, \<^verbatim>\<open>False\<close> otherwise; it returns \<^verbatim>\<open>True\<close> only if the check reported locked. A
  command name outside the six of the chain gives \<^verbatim>\<open>None\<close>. Every exception is caught and
  the call gives \<^verbatim>\<open>None\<close>: an exception of opening or closing the session, for any
  command, and an exception of any call a command makes (\<^verbatim>\<open>run_ftp\<close>, \<^verbatim>\<open>reboot\<close>, \<^verbatim>\<open>exec\<close>,
  \<^verbatim>\<open>openmiio_prepare_gateway\<close>, \<^verbatim>\<open>lock_firmware\<close>, \<^verbatim>\<open>check_firmware_lock\<close>). When nothing
  raises, \<^verbatim>\<open>run_ftp\<close>, \<^verbatim>\<open>reboot\<close> and \<^verbatim>\<open>openmiio_restart\<close> give \<^verbatim>\<open>True\<close>,
  \<^verbatim>\<open>check_firmware_lock\<close> gives the check's answer and \<^verbatim>\<open>unlock_firmware\<close> its negation.
\<close>

theorem telnet_command_tri_state:
  "(aenter sh = None \<and> lock_firmware sh True = None \<and> check_firmware_lock sh = Inr locked
      \<and> aexit sh = None \<longrightarrow>
      telnet_command sh ad ''lock_firmware'' =
        (Some locked,
         [Debug (Telnet_command ''lock_firmware''), Open_session, Lock_firmware True,
          Check_firmware_lock, Close_session]))
 \<and> (fst (telnet_command sh ad ''lock_firmware'') = Some True \<longrightarrow>
      check_firmware_lock sh = Inr True)
 \<and> (cmd \<notin> set commands \<longrightarrow> fst (telnet_command sh ad cmd) = None)
 \<and> (snd (telnet_try sh ad cmd) = Raise e \<longrightarrow>
      fst (telnet_command sh ad cmd) = None
      \<and> last (snd (telnet_command sh ad cmd)) = Error (Cant_run_telnet_command cmd))
 \<and> (aenter sh \<noteq> None \<or> aexit sh \<noteq> None \<or> lock_firmware sh True \<noteq> None
      \<or> check_firmware_lock sh = Inl e' \<longrightarrow>
      fst (telnet_command sh ad ''lock_firmware'') = None)
 \<and> (aenter sh \<noteq> None \<or> aexit sh \<noteq> None \<longrightarrow> fst (telnet_command sh ad cmd) = None)
 \<and> (run_ftp sh \<noteq> None \<longrightarrow> fst (telnet_command sh ad ''run_ftp'') = None)
 \<and> (reboot sh \<noteq> None \<longrightarrow> fst (telnet_command sh ad ''reboot'') = None)
 \<and> (exec sh \<noteq> None \<or> ad Openmiio_prepare_gateway \<noteq> None \<longrightarrow>
      fst (telnet_command sh ad ''openmiio_restart'') = None)
 \<and> (check_firmware_lock sh = Inl e' \<longrightarrow>
      fst (telnet_command sh ad ''check_firmware_lock'') = None
      \<and> fst (telnet_command sh ad ''unlock_firmware'') = None)
 \<and> (lock_firmware sh False \<noteq> None \<longrightarrow>
      fst (telnet_command sh ad ''unlock_firmware'') = None)
 \<and> (aenter sh = None \<and> aexit sh = None \<longrightarrow>
      (run_ftp sh = None \<longrightarrow> fst (telnet_command sh ad ''run_ftp'') = Some True)
      \<and> (reboot sh = None \<longrightarrow> fst (telnet_command sh ad ''reboot'') = Some True)
      \<and> (exec sh = None \<and> ad Openmiio_prepare_gateway = None \<longrightarrow>
           fst (telnet_command sh ad ''openmiio_restart'') = Some True)
      \<and> (check_firmware_lock sh = Inr locked \<longrightarrow>
           fst (telnet_command sh ad ''check_firmware_lock'') = Some locked
           \<and> (lock_firmware sh False = None \<longrightarrow>
                fst (telnet_command sh ad ''unlock_firmware'') = Some (\<not> locked))))"
  (is "?locked \<and> ?only_if \<and> ?unknown \<and> ?caught \<and> ?lock_raises \<and> ?session \<and> ?ftp
       \<and> ?reboot \<and> ?restart \<and> ?check \<and> ?unlock \<and> ?answers")
proof -
  have a: ?locked
    by (simp add: telnet_command_def telnet_try_def telnet_lock_body)
  have b: ?only_if
    by (cases "aenter sh"; cases "aexit sh"; cases "lock_firmware sh True";
        cases "check_firmware_lock sh")
       (simp_all add: telnet_command_def telnet_try_def telnet_lock_body)
  have c: ?unknown
    by (simp add: telnet_command_unknown)
  have d: ?caught
    by (simp add: telnet_command_def)
  have e: ?lock_raises
    by (cases "aenter sh"; cases "aexit sh"; cases "lock_firmware sh True";
        cases "check_firmware_lock sh")
       (simp_all add: telnet_command_def telnet_try_def telnet_lock_body)
  have f: ?session
    by (simp add: telnet_value)
  have g: ?ftp
    by (auto simp add: telnet_value telnet_bodies)
  have h: ?reboot
    by (auto simp add: telnet_value telnet_bodies)
  have i: ?restart
    by (auto simp add: telnet_value telnet_bodies split: option.splits)
  have j: ?check
    by (auto simp add: telnet_value telnet_bodies split: option.splits)
  have k: ?unlock
    by (auto simp add: telnet_value telnet_bodies)
  have l: ?answers
    by (simp add: telnet_value telnet_bodies)
  show ?thesis
    by (rule conjI, rule a, rule conjI, rule b, rule conjI, rule c, rule conjI, rule d,
        rule conjI, rule e, rule conjI, rule f, rule conjI, rule g, rule conjI, rule h,
        rule conjI, rule i, rule conjI, rule j, rule conjI, rule k, rule l)
qed

theorem telnet_command_tri_state_witness:
  "(let ok = \<lparr>attrs = [], aenter = None, only_one = Inr True, get_miio_info = Inr Map.empty,
                get_version = Inr ''1.5.0_0102'', aexit = None, run_ftp = None, reboot = None,
                exec = None, lock_firmware = (\<lambda>on. None), check_firmware_lock = Inr True\<rparr>;
        failing = \<lparr>attrs = [], aenter = None, only_one = Inr True,
                get_miio_info = Inr Map.empty, get_version = Inr ''1.5.0_0102'', aexit = None,
                run_ftp = Some (Exception ''ftp''), reboot = Some (Exception ''reboot''),
                exec = Some (Exception ''killall''),
                lock_firmware = (\<lambda>on. Some (Exception ''read-only file system'')),
                check_firmware_lock = Inl (Exception ''timeout'')\<rparr>;
        unchecked = ok\<lparr>check_firmware_lock := Inl (Exception ''timeout'')\<rparr>;
        closed = ok\<lparr>aenter := Some (Exception ''connection refused'')\<rparr>;
        dropped = ok\<lparr>aexit := Some (Exception ''connection lost'')\<rparr>;
        returns = (\<lambda>r. None);
        raises = (\<lambda>r. Some (Exception ''openmiio''))
    in telnet_command ok returns ''lock_firmware''
         = (Some True,
            [Debug (Telnet_command ''lock_firmware''), Open_session, Lock_firmware True,
             Check_firmware_lock, Close_session])
     \<and> fst (telnet_command ok returns ''run_ftp'') = Some True
     \<and> fst (telnet_command ok returns ''reboot'') = Some True
     \<and> fst (telnet_command ok returns ''openmiio_restart'') = Some True
     \<and> fst (telnet_command ok returns ''check_firmware_lock'') = Some True
     \<and> fst (telnet_command ok returns ''unlock_firmware'') = Some False
     \<and> ''ping'' \<notin> set commands
     \<and> fst (telnet_command ok returns ''ping'') = None
     \<and> fst (telnet_command ok raises ''openmiio_restart'') = None
     \<and> fst (telnet_command failing returns ''run_ftp'') = None
     \<and> fst (telnet_command failing returns ''reboot'') = None
     \<and> fst (telnet_command failing returns ''openmiio_restart'') = None
     \<and> fst (telnet_command failing returns ''check_firmware_lock'') = None
     \<and> fst (telnet_command failing returns ''unlock_firmware'') = None
     \<and> snd (telnet_try failing returns ''lock_firmware'')
         = Raise (Exception ''read-only file system'')
     \<and> telnet_command failing returns ''lock_firmware''
         = (None,
            [Debug (Telnet_command ''lock_firmware''), Open_session, Lock_firmware True,
             Close_session, Error (Cant_run_telnet_command ''lock_firmware'')])
     \<and> fst (telnet_command unchecked returns ''lock_firmware'') = None
     \<and> fst (telnet_command unchecked returns ''unlock_firmware'') = None
     \<and> fst (telnet_command closed returns ''reboot'') = None
     \<and> fst (telnet_command dropped returns ''reboot'') = None)"
proof -
  let ?ok = "\<lparr>attrs = [], aenter = None, only_one = Inr True, get_miio_info = Inr Map.empty,
      get_version = Inr ''1.5.0_0102'', aexit = None, run_ftp = None, reboot = None,
      exec = None, lock_firmware = (\<lambda>on. None), check_firmware_lock = Inr True\<rparr>"
  let ?failing = "\<lparr>attrs = [], aenter = None, only_one = Inr True,
      get_miio_info = Inr Map.empty, get_version = Inr ''1.5.0_0102'', aexit = None,
      run_ftp = Some (Exception ''ftp''), reboot = Some (Exception ''reboot''),
      exec = Some (Exception ''killall''),
      lock_firmware = (\<lambda>on. Some (Exception ''read-only file system'')),
      check_firmware_lock = Inl (Exception ''timeout'')\<rparr>"
  show ?thesis
    using
      telnet_command_tri_state
        [where sh = ?ok and locked = True and ad = "\<lambda>r. None" and cmd = "''ping''"]
      telnet_command_tri_state
        [where sh = ?ok and ad = "\<lambda>r. Some (Exception ''openmiio'')"]
      telnet_command_tri_state
        [where sh = ?failing and ad = "\<lambda>r. None" and cmd = "''lock_firmware''"
           and e = "Exception ''read-only file system''" and e' = "Exception ''timeout''"]
      telnet_command_tri_state
        [where sh = "?ok\<lparr>check_firmware_lock := Inl (Exception ''timeout'')\<rparr>"
           and ad = "\<lambda>r. None" and e' = "Exception ''timeout''"]
      telnet_command_tri_state
        [where sh = "?ok\<lparr>aenter := Some (Exception ''connection refused'')\<rparr>"
           and ad = "\<lambda>r. None" and cmd = "''reboot''"]
      telnet_command_tri_state
        [where sh = "?ok\<lparr>aexit := Some (Exception ''connection lost'')\<rparr>"
           and ad = "\<lambda>r. None" and cmd = "''reboot''"]
    by (simp add: Let_def commands_def telnet_command_def telnet_try_def telnet_body_def
        then_check_def then_return_def)
qed

section \<open>Properties of \<^verbatim>\<open>run_forever\<close>\<close>








section \<open>Properties of \<^verbatim>\<open>start\<close> and \<^verbatim>\<open>stop\<close>\<close>

lemma cancel_loop_Some:
  assumes "cancel_loop aio t n = Some y"
  shows "\<exists>k. snd y = n + k \<and> fst y = (cancel_sleep aio ^^ k) t \<and> cancelled aio (fst y)
     \<and> (\<forall>j<k. \<not> cancelled aio ((cancel_sleep aio ^^ j) t))"
proof (rule cancel_loop.raw_induct
    [OF _ assms, where P = "\<lambda>aio t n y. \<exists>k. snd y = n + k \<and> fst y = (cancel_sleep aio ^^ k) t
       \<and> cancelled aio (fst y) \<and> (\<forall>j<k. \<not> cancelled aio ((cancel_sleep aio ^^ j) t))"])
  fix cl :: "'a asyncio \<Rightarrow> 'a \<Rightarrow> nat \<Rightarrow> ('a \<times> nat) option" and a u m z
  assume ih: "\<And>a u m z. cl a u m = Some z \<Longrightarrow>
      \<exists>k. snd z = m + k \<and> fst z = (cancel_sleep a ^^ k) u \<and> cancelled a (fst z)
        \<and> (\<forall>j<k. \<not> cancelled a ((cancel_sleep a ^^ j) u))"
    and step: "(if \<not> cancelled a u then cl a (cancel_sleep a u) (Suc m) else Some (u, m))
      = Some z"
  show "\<exists>k. snd z = m + k \<and> fst z = (cancel_sleep a ^^ k) u \<and> cancelled a (fst z)
      \<and> (\<forall>j<k. \<not> cancelled a ((cancel_sleep a ^^ j) u))"
  proof (cases "cancelled a u")
    case True
    with step have "z = (u, m)" by simp
    with True show ?thesis by (intro exI [of _ 0]) simp
  next
    case False
    with step have "cl a (cancel_sleep a u) (Suc m) = Some z" by simp
    from ih [OF this] obtain k where k: "snd z = Suc m + k"
      "fst z = (cancel_sleep a ^^ k) (cancel_sleep a u)" "cancelled a (fst z)"
      "\<forall>j<k. \<not> cancelled a ((cancel_sleep a ^^ j) (cancel_sleep a u))"
      by blast
    have "\<not> cancelled a ((cancel_sleep a ^^ j) u)" if "j < Suc k" for j
    proof (cases j)
      case 0
      with False show ?thesis by simp
    next
      case (Suc j')
      with that k(4) show ?thesis by (simp add: funpow_swap1)
    qed
    with k(1-3) show ?thesis
      by (intro exI [of _ "Suc k"]) (simp add: funpow_swap1)
  qed
qed

lemma cancel_loop_returns:
  "cancelled aio ((cancel_sleep aio ^^ k) t) \<Longrightarrow> \<exists>y. cancel_loop aio t n = Some y"
proof (induction k arbitrary: t n)
  case 0
  then show ?case by (subst cancel_loop.simps) simp
next
  case (Suc k)
  show ?case
  proof (cases "cancelled aio t")
    case True
    then show ?thesis by (subst cancel_loop.simps) simp
  next
    case False
    from Suc.prems have "cancelled aio ((cancel_sleep aio ^^ k) (cancel_sleep aio t))"
      by (simp add: funpow_swap1)
    from Suc.IH [OF this, of "Suc n"] False show ?thesis
      by (subst cancel_loop.simps) simp
  qed
qed

lemma list_all_not_filter: "list_all P xs \<Longrightarrow> filter (\<lambda>t. \<not> P t) xs = []"
  by (induction xs) simp_all

lemma supervised_live: "supervised aio g \<Longrightarrow> length (live aio g) \<le> 1"
proof (cases "main_task g")
  case None
  assume "supervised aio g"
  with None show ?thesis
    by (simp add: supervised_def live_def list_all_not_filter)
next
  case (Some h)
  assume "supervised aio g"
  with Some have h: "h < length (tasks g)" "list_all (cancelled aio) (take h (tasks g))"
    "list_all (cancelled aio) (drop (Suc h) (tasks g))"
    by (simp_all add: supervised_def)
  have "tasks g = take h (tasks g) @ tasks g ! h # drop (Suc h) (tasks g)"
    using h(1) by (rule id_take_nth_drop)
  then have "live aio g =
      filter (\<lambda>t. \<not> cancelled aio t) (take h (tasks g) @ tasks g ! h # drop (Suc h) (tasks g))"
    by (simp add: live_def)
  then show ?thesis
    using h(2,3) by (simp add: list_all_not_filter)
qed

lemma supervised_start: "supervised aio g \<Longrightarrow> supervised aio (start new g)"
  by (cases "main_task g") (simp_all add: supervised_def start_def)

lemma stop_Some:
  assumes "main_task g = Some h" and "stop aio g = Some (g', n)"
  shows "main_task g' = None
     \<and> tasks g' = (tasks g)[h := (cancel_sleep aio ^^ n) (tasks g ! h)]
     \<and> cancelled aio ((cancel_sleep aio ^^ n) (tasks g ! h))
     \<and> (\<forall>k<n. \<not> cancelled aio ((cancel_sleep aio ^^ k) (tasks g ! h)))"
proof -
  from assms obtain t where c: "cancel_loop aio (tasks g ! h) 0 = Some (t, n)"
    and g': "g' = g\<lparr>main_task := None, tasks := (tasks g)[h := t]\<rparr>"
    by (auto simp add: stop_def split: option.splits)
  from cancel_loop_Some [OF c] have "t = (cancel_sleep aio ^^ n) (tasks g ! h)"
    "cancelled aio t" "\<forall>k<n. \<not> cancelled aio ((cancel_sleep aio ^^ k) (tasks g ! h))"
    by auto
  with g' show ?thesis by simp
qed

lemma supervised_stop:
  assumes "supervised aio g" and "stop aio g = Some (g', n)"
  shows "supervised aio g'"
proof (cases "main_task g")
  case None
  with assms show ?thesis by (simp add: stop_def)
next
  case (Some h)
  from stop_Some [OF Some assms(2)] have s: "main_task g' = None"
    "tasks g' = (tasks g)[h := (cancel_sleep aio ^^ n) (tasks g ! h)]"
    "cancelled aio ((cancel_sleep aio ^^ n) (tasks g ! h))"
    by simp_all
  from assms(1) Some have h: "h < length (tasks g)"
    "list_all (cancelled aio) (take h (tasks g))"
    "list_all (cancelled aio) (drop (Suc h) (tasks g))"
    by (simp_all add: supervised_def)
  have "tasks g' = take h (tasks g) @ (cancel_sleep aio ^^ n) (tasks g ! h)
      # drop (Suc h) (tasks g)"
    using s(2) h(1) by (simp add: upd_conv_take_nth_drop)
  then have "list_all (cancelled aio) (tasks g')"
    using s(3) h(2,3) by simp
  with s(1) show ?thesis by (simp add: supervised_def)
qed

lemma reachable_supervised: "reachable aio g \<Longrightarrow> supervised aio g"
proof (induction rule: reachable.induct)
  case created
  show ?case by (simp add: supervised_def)
next
  case (started g new)
  then show ?case by (simp add: supervised_start)
next
  case (stopped g g' n)
  then show ?case by (simp add: supervised_stop)
qed

text \<open>
  C7. \<^verbatim>\<open>start\<close> changes nothing when a task is recorded, and otherwise records the one new
  task. \<^verbatim>\<open>stop\<close> changes nothing and returns at once when no task is recorded. Otherwise
  it returns exactly when the task reports cancelled after some number of cancel requests;
  it then has made a cancel request and slept for as long as the task did not report
  cancelled, the task reports cancelled, and the run-state is cleared. In every run-state
  reached by starting and stopping, at most one task of the table is not cancelled.
\<close>

theorem start_stop_single_task:
  "(main_task g \<noteq> None \<longrightarrow> start new g = g)
 \<and> (main_task g = None \<longrightarrow>
      start new g = \<lparr>main_task = Some (length (tasks g)), tasks = tasks g @ [new]\<rparr>
      \<and> stop aio g = Some (g, 0))
 \<and> (main_task g = Some h \<longrightarrow>
      (\<exists>r. stop aio g = Some r) = (\<exists>k. cancelled aio ((cancel_sleep aio ^^ k) (tasks g ! h))))
 \<and> (main_task g = Some h \<and> stop aio g = Some (g', n) \<longrightarrow>
      main_task g' = None
      \<and> tasks g' = (tasks g)[h := (cancel_sleep aio ^^ n) (tasks g ! h)]
      \<and> cancelled aio ((cancel_sleep aio ^^ n) (tasks g ! h))
      \<and> (\<forall>k<n. \<not> cancelled aio ((cancel_sleep aio ^^ k) (tasks g ! h))))
 \<and> (reachable aio g \<longrightarrow> supervised aio g \<and> length (live aio g) \<le> 1)"
  (is "?start_noop \<and> ?idle \<and> ?returns \<and> ?drives \<and> ?one_live")
proof -
  have a: ?start_noop
    by (simp add: start_def)
  have b: ?idle
    by (simp add: start_def stop_def)
  have c: ?returns
  proof
    assume m: "main_task g = Some h"
    show "(\<exists>r. stop aio g = Some r)
        = (\<exists>k. cancelled aio ((cancel_sleep aio ^^ k) (tasks g ! h)))"
    proof
      assume "\<exists>r. stop aio g = Some r"
      then obtain g' n where "stop aio g = Some (g', n)" by auto
      from stop_Some [OF m this] show "\<exists>k. cancelled aio ((cancel_sleep aio ^^ k) (tasks g ! h))"
        by blast
    next
      assume "\<exists>k. cancelled aio ((cancel_sleep aio ^^ k) (tasks g ! h))"
      then obtain k where "cancelled aio ((cancel_sleep aio ^^ k) (tasks g ! h))" by blast
      from cancel_loop_returns [OF this, of 0] obtain y
        where "cancel_loop aio (tasks g ! h) 0 = Some y" by blast
      with m show "\<exists>r. stop aio g = Some r"
        by (cases y) (simp add: stop_def)
    qed
  qed
  have d: ?drives
    using stop_Some [of g h aio g' n] by blast
  have e: ?one_live
    using reachable_supervised [of aio g] supervised_live [of aio g] by blast
  show ?thesis
    by (rule conjI, rule a, rule conjI, rule b, rule conjI, rule c, rule conjI, rule d, rule e)
qed

theorem start_stop_single_task_witness:
  "start 7 \<lparr>main_task = Some 0, tasks = [2::nat]\<rparr> = \<lparr>main_task = Some 0, tasks = [2]\<rparr>
   \<and> start 2 \<lparr>main_task = None, tasks = [0::nat]\<rparr> = \<lparr>main_task = Some 1, tasks = [0, 2]\<rparr>
   \<and> stop \<lparr>cancelled = (\<lambda>t::nat. t = 0), cancel_sleep = (\<lambda>t. t - 1)\<rparr>
        \<lparr>main_task = None, tasks = [0]\<rparr>
      = Some (\<lparr>main_task = None, tasks = [0]\<rparr>, 0)
   \<and> stop \<lparr>cancelled = (\<lambda>t::nat. t = 0), cancel_sleep = (\<lambda>t. t - 1)\<rparr>
        \<lparr>main_task = Some 0, tasks = [2]\<rparr>
      = Some (\<lparr>main_task = None, tasks = [0]\<rparr>, 2)
   \<and> reachable \<lparr>cancelled = (\<lambda>t::nat. t = 0), cancel_sleep = (\<lambda>t. t - 1)\<rparr>
        \<lparr>main_task = Some 0, tasks = [2]\<rparr>
   \<and> length (live \<lparr>cancelled = (\<lambda>t::nat. t = 0), cancel_sleep = (\<lambda>t. t - 1)\<rparr>
        \<lparr>main_task = Some 0, tasks = [2]\<rparr>) \<le> 1"
proof -
  let ?aio = "\<lparr>cancelled = (\<lambda>t::nat. t = 0), cancel_sleep = (\<lambda>t. t - 1)\<rparr>"
  have r: "reachable ?aio \<lparr>main_task = Some 0, tasks = [2]\<rparr>"
    using reachable.started [OF reachable.created, of ?aio 2] by (simp add: start_def)
  have s: "stop ?aio \<lparr>main_task = Some 0, tasks = [2]\<rparr>
      = Some (\<lparr>main_task = None, tasks = [0]\<rparr>, 2)"
    by (simp add: stop_def cancel_loop.simps)
  show ?thesis
    using r s
      start_stop_single_task
        [where g = "\<lparr>main_task = Some 0, tasks = [2::nat]\<rparr>" and new = 7 and aio = ?aio
           and h = 0 and g' = "\<lparr>main_task = None, tasks = [0]\<rparr>" and n = 2]
      start_stop_single_task
        [where g = "\<lparr>main_task = None, tasks = [0::nat]\<rparr>" and new = 2 and aio = ?aio]
    by simp
qed

end
